theory Spec2Isabelle
  imports Complex_Main
begin

section \<open>JavaScript values\<close>

text \<open>
  The scoring engine is TypeScript running on JavaScript numbers. A number is modelled as
  an exact real, together with the three special values a double can take. Rounding of
  finite doubles is not modelled: \<open>0.18 + 0.12\<close> is the real \<open>0.3\<close>.
\<close>

datatype jsnum = NaN | NInf | Fin real | PInf

text \<open>The relational operator \<open><\<close> on two numbers: false as soon as one side is NaN.\<close>

fun num_lt :: "jsnum \<Rightarrow> jsnum \<Rightarrow> bool" where
  "num_lt (Fin a) (Fin b) = (a < b)"
| "num_lt NInf (Fin b) = True"
| "num_lt NInf PInf = True"
| "num_lt (Fin a) PInf = True"
| "num_lt _ _ = False"

fun negate :: "jsnum \<Rightarrow> jsnum" where
  "negate NaN = NaN"
| "negate NInf = PInf"
| "negate (Fin x) = Fin (- x)"
| "negate PInf = NInf"

subsection \<open>Strings as numbers\<close>

text \<open>
  The conversion of a string to a number, after the StringNumericLiteral grammar of
  ECMAScript: white space is trimmed, the empty string is 0, an unsigned literal with a
  radix prefix or a signed decimal literal is its value, and everything else is NaN.
  Characters are the Latin-1 ones. The value of a literal is exact: there is no rounding,
  and a literal too large for a double stays finite here.
\<close>

definition is_digit :: "char \<Rightarrow> bool" where
  "is_digit c \<longleftrightarrow> c \<in> set ''0123456789''"

definition is_hex_digit :: "char \<Rightarrow> bool" where
  "is_hex_digit c \<longleftrightarrow> c \<in> set ''0123456789abcdefABCDEF''"

definition is_octal_digit :: "char \<Rightarrow> bool" where
  "is_octal_digit c \<longleftrightarrow> c \<in> set ''01234567''"

definition is_binary_digit :: "char \<Rightarrow> bool" where
  "is_binary_digit c \<longleftrightarrow> c \<in> set ''01''"

text \<open>The value of a digit, by its character code: \<open>0\<close> to \<open>9\<close>, \<open>a\<close> to \<open>f\<close>, \<open>A\<close> to \<open>F\<close>.\<close>

definition digit_of :: "char \<Rightarrow> nat" where
  "digit_of c =
     (let n = (of_char c :: nat) in
      if 48 \<le> n \<and> n \<le> 57 then n - 48
      else if 97 \<le> n \<and> n \<le> 102 then n - 87
      else if 65 \<le> n \<and> n \<le> 70 then n - 55
      else 0)"

definition digits_value :: "nat \<Rightarrow> string \<Rightarrow> nat" where
  "digits_value b s = foldl (\<lambda>n c. b * n + digit_of c) 0 s"

text \<open>Tab, line feed, vertical tab, form feed, carriage return, space, no-break space.\<close>

definition is_space :: "char \<Rightarrow> bool" where
  "is_space c \<longleftrightarrow>
     c \<in> set [CHR 0x09, CHR 0x0A, CHR 0x0B, CHR 0x0C, CHR 0x0D, CHR 0x20, CHR 0xA0]"

definition trim :: "string \<Rightarrow> string" where
  "trim s = rev (dropWhile is_space (rev (dropWhile is_space s)))"

definition radix_literal :: "nat \<Rightarrow> (char \<Rightarrow> bool) \<Rightarrow> string \<Rightarrow> jsnum" where
  "radix_literal b ok ds =
     (if ds \<noteq> [] \<and> list_all ok ds then Fin (real (digits_value b ds)) else NaN)"

text \<open>\<open>0x\<close>, \<open>0o\<close> and \<open>0b\<close> literals; \<open>None\<close> when the string has no such prefix.\<close>

definition non_decimal :: "string \<Rightarrow> jsnum option" where
  "non_decimal s =
     (case s of
        z # x # ds \<Rightarrow>
          if z \<noteq> CHR ''0'' then None
          else if x = CHR ''x'' \<or> x = CHR ''X'' then Some (radix_literal 16 is_hex_digit ds)
          else if x = CHR ''o'' \<or> x = CHR ''O'' then Some (radix_literal 8 is_octal_digit ds)
          else if x = CHR ''b'' \<or> x = CHR ''B'' then Some (radix_literal 2 is_binary_digit ds)
          else None
      | _ \<Rightarrow> None)"

definition signed_digits :: "string \<Rightarrow> int option" where
  "signed_digits s =
     (let neg = (s \<noteq> [] \<and> hd s = CHR ''-'');
          ds = (if s \<noteq> [] \<and> (hd s = CHR ''-'' \<or> hd s = CHR ''+'') then tl s else s)
      in if ds \<noteq> [] \<and> list_all is_digit ds
         then Some (if neg then - int (digits_value 10 ds) else int (digits_value 10 ds))
         else None)"

text \<open>What follows the digits of a decimal literal: nothing, or \<open>e\<close> and a signed integer.\<close>

definition exponent_part :: "string \<Rightarrow> int option" where
  "exponent_part s =
     (case s of
        [] \<Rightarrow> Some 0
      | e # r \<Rightarrow> if e = CHR ''e'' \<or> e = CHR ''E'' then signed_digits r else None)"

definition scale :: "int \<Rightarrow> real \<Rightarrow> real" where
  "scale e x = (if 0 \<le> e then x * 10 ^ nat e else x / 10 ^ nat (- e))"

text \<open>
  \<open>Infinity\<close>, or digits with an optional fraction and exponent; at least one digit before
  or after the point.
\<close>

definition unsigned_decimal :: "string \<Rightarrow> jsnum" where
  "unsigned_decimal s =
     (if s = ''Infinity'' then PInf
      else
        let ip = takeWhile is_digit s;
            r1 = dropWhile is_digit s;
            dot = (r1 \<noteq> [] \<and> hd r1 = CHR ''.'');
            fp = (if dot then takeWhile is_digit (tl r1) else []);
            r2 = (if dot then dropWhile is_digit (tl r1) else r1)
        in if ip = [] \<and> fp = [] then NaN
           else case exponent_part r2 of
                  None \<Rightarrow> NaN
                | Some e \<Rightarrow>
                    Fin (scale e (real (digits_value 10 ip)
                                  + real (digits_value 10 fp) / 10 ^ length fp)))"

definition signed_decimal :: "string \<Rightarrow> jsnum" where
  "signed_decimal s =
     (if s \<noteq> [] \<and> hd s = CHR ''-'' then negate (unsigned_decimal (tl s))
      else if s \<noteq> [] \<and> hd s = CHR ''+'' then unsigned_decimal (tl s)
      else unsigned_decimal s)"

definition StringToNumber :: "string \<Rightarrow> jsnum" where
  "StringToNumber s =
     (let t = trim s in
      if t = [] then Fin 0
      else case non_decimal t of Some n \<Rightarrow> n | None \<Rightarrow> signed_decimal t)"

subsection \<open>Values and their conversions\<close>

text \<open>
  What the code reads from a dataset row or from a patient record (\<open>patientData: any\<close>):
  the property is missing (\<open>undefined\<close>), is \<open>null\<close>, or holds a number or a string.
\<close>

datatype jsval = Undefined | Null | Num jsnum | Str string

text \<open>
  The conversion to a number that the relational operators and \<open>Number(v)\<close> apply.
\<close>

fun ToNumber :: "jsval \<Rightarrow> jsnum" where
  "ToNumber Undefined = NaN"
| "ToNumber Null = Fin 0"
| "ToNumber (Num n) = n"
| "ToNumber (Str s) = StringToNumber s"

text \<open>\<open>v > c\<close> and \<open>v < c\<close> against a numeric literal \<open>c\<close>.\<close>

definition js_gt :: "jsval \<Rightarrow> real \<Rightarrow> bool" where
  "js_gt v c = num_lt (Fin c) (ToNumber v)"

definition js_lt :: "jsval \<Rightarrow> real \<Rightarrow> bool" where
  "js_lt v c = num_lt (ToNumber v) (Fin c)"

text \<open>
  Truthiness: \<open>undefined\<close>, \<open>null\<close>, \<open>0\<close>, \<open>NaN\<close> and the empty string are falsy.
  Then \<open>!v\<close> and \<open>a || b\<close>.
\<close>

fun truthy :: "jsval \<Rightarrow> bool" where
  "truthy Undefined = False"
| "truthy Null = False"
| "truthy (Num n) = (n \<noteq> NaN \<and> n \<noteq> Fin 0)"
| "truthy (Str s) = (s \<noteq> [])"

definition falsy :: "jsval \<Rightarrow> bool" where
  "falsy v \<longleftrightarrow> \<not> truthy v"

definition or_else :: "jsval \<Rightarrow> jsval \<Rightarrow> jsval" where
  "or_else a b = (if truthy a then a else b)"

text \<open>\<open>v !== undefined && v !== null\<close>\<close>

definition present :: "jsval \<Rightarrow> bool" where
  "present v \<longleftrightarrow> v \<noteq> Undefined \<and> v \<noteq> Null"

text \<open>
  \<open>String(v)\<close>. The digits that it produces for a number are not modelled:
  \<open>NumberString n\<close> stands for the string \<open>String(n)\<close>, which is never empty.
\<close>

datatype jsstring = Chars string | NumberString jsnum

fun String_of :: "jsval \<Rightarrow> jsstring" where
  "String_of Undefined = Chars ''undefined''"
| "String_of Null = Chars ''null''"
| "String_of (Num n) = NumberString n"
| "String_of (Str s) = Chars s"

section \<open>Patient records\<close>

text \<open>
  \<open>vitals\<close> and \<open>labs\<close> are objects read by property name; a name that is not a property
  reads as \<open>undefined\<close>. Either object may itself be missing, which is why the code reads
  them through \<open>?.\<close>.
\<close>

type_synonym fields = "string \<Rightarrow> jsval"

datatype gender = M | F

record patient =
  Patient_ID :: jsstring
  Hour :: jsval
  Age :: jsval
  Gender :: gender
  Unit1 :: bool
  Unit2 :: bool
  HospAdmTime :: jsval
  ICULOS :: jsval
  SepsisLabel :: jsval
  vitals :: "fields option"
  labs :: "fields option"

text \<open>\<open>obj?.[k]\<close>\<close>

fun opt_get :: "fields option \<Rightarrow> string \<Rightarrow> jsval" where
  "opt_get None k = Undefined"
| "opt_get (Some f) k = f k"

section \<open>The risk scorer: \<open>predictWithUncertainty\<close>\<close>

datatype risk_level = LOW | MODERATE | HIGH | CRITICAL | UNCERTAIN

record prediction =
  probability :: real
  confidence :: real
  riskLevel :: risk_level

text \<open>
  The local variables the method updates as it walks through the record
  (\<open>conf\<close> is the local \<open>confidence\<close>).
\<close>

record scoring =
  riskScore :: real
  conf :: real
  uncertaintyPenalty :: real
  sirsCount :: nat
  dataCompleteness :: nat
  totalChecks :: nat

definition initial :: scoring where
  "initial = \<lparr>riskScore = 0, conf = 0.85, uncertaintyPenalty = 0,
     sirsCount = 0, dataCompleteness = 0, totalChecks = 0\<rparr>"

text \<open>\<open>totalChecks++; dataCompleteness++\<close>\<close>

definition counted :: "scoring \<Rightarrow> scoring" where
  "counted s = s\<lparr>totalChecks := totalChecks s + 1, dataCompleteness := dataCompleteness s + 1\<rparr>"

text \<open>\<open>if (c) riskScore += w\<close>\<close>

definition risk_if :: "bool \<Rightarrow> real \<Rightarrow> scoring \<Rightarrow> scoring" where
  "risk_if c w s = (if c then s\<lparr>riskScore := riskScore s + w\<rparr> else s)"

text \<open>\<open>if (c) { sirsCount++; riskScore += w }\<close>\<close>

definition sirs_if :: "bool \<Rightarrow> real \<Rightarrow> scoring \<Rightarrow> scoring" where
  "sirs_if c w s = (if c then s\<lparr>sirsCount := sirsCount s + 1, riskScore := riskScore s + w\<rparr> else s)"

text \<open>\<open>uncertaintyPenalty += w\<close>\<close>

definition penalty :: "real \<Rightarrow> scoring \<Rightarrow> scoring" where
  "penalty w s = s\<lparr>uncertaintyPenalty := uncertaintyPenalty s + w\<rparr>"

definition score_Temp :: "patient \<Rightarrow> scoring \<Rightarrow> scoring" where
  "score_Temp p s =
    (let temp = opt_get (vitals p) ''Temp'' in
     if present temp then
       (let s1 = counted s;
            s2 = sirs_if (js_gt temp 38 \<or> js_lt temp 36) 0.18 s1;
            s3 = risk_if (js_gt temp 39 \<or> js_lt temp 35) 0.12 s2
        in s3)
     else penalty 0.06 s)"

definition score_HR :: "patient \<Rightarrow> scoring \<Rightarrow> scoring" where
  "score_HR p s =
    (let hr = opt_get (vitals p) ''HR'' in
     if present hr then
       (let s1 = counted s;
            s2 = sirs_if (js_gt hr 90) 0.15 s1;
            s3 = risk_if (js_gt hr 120) 0.10 s2;
            s4 = risk_if (js_gt hr 140) 0.06 s3
        in s4)
     else penalty 0.06 s)"

definition score_Resp :: "patient \<Rightarrow> scoring \<Rightarrow> scoring" where
  "score_Resp p s =
    (let resp = opt_get (vitals p) ''Resp'' in
     if present resp then
       (let s1 = counted s;
            s2 = sirs_if (js_gt resp 20) 0.12 s1;
            s3 = risk_if (js_gt resp 25) 0.08 s2
        in s3)
     else penalty 0.05 s)"

definition score_WBC :: "patient \<Rightarrow> scoring \<Rightarrow> scoring" where
  "score_WBC p s =
    (let wbc = opt_get (labs p) ''WBC'' in
     if present wbc then
       (let s1 = counted s;
            s2 = sirs_if (js_gt wbc 12 \<or> js_lt wbc 4) 0.20 s1;
            s3 = risk_if (js_gt wbc 15 \<or> js_lt wbc 2) 0.12 s2
        in s3)
     else penalty 0.10 s)"

text \<open>A missing MAP carries no penalty: the source has no \<open>else\<close> branch here.\<close>

definition score_MAP :: "patient \<Rightarrow> scoring \<Rightarrow> scoring" where
  "score_MAP p s =
    (let mean = opt_get (vitals p) ''MAP'' in
     if present mean then
       (let s1 = counted s in
        if js_lt mean 65 then s1\<lparr>riskScore := riskScore s1 + 0.25\<rparr>
        else if js_lt mean 70 then s1\<lparr>riskScore := riskScore s1 + 0.15\<rparr>
        else s1)
     else s)"

definition score_Lactate :: "patient \<Rightarrow> scoring \<Rightarrow> scoring" where
  "score_Lactate p s =
    (let lactate = opt_get (labs p) ''Lactate'' in
     if present lactate then
       (let s1 = counted s in
        if js_gt lactate 4.0 then
          s1\<lparr>riskScore := riskScore s1 + 0.35, conf := conf s1 + 0.06\<rparr>
        else if js_gt lactate 2.5 then
          s1\<lparr>riskScore := riskScore s1 + 0.22, conf := conf s1 + 0.03\<rparr>
        else if js_gt lactate 2.0 then
          s1\<lparr>riskScore := riskScore s1 + 0.12\<rparr>
        else s1)
     else penalty 0.12 s)"

text \<open>
  The additional markers and the time-based factors compare without a presence test:
  \<open>undefined < 100\<close> is false, \<open>null < 100\<close> is true.
\<close>

definition score_markers :: "patient \<Rightarrow> scoring \<Rightarrow> scoring" where
  "score_markers p s =
    (let creatinine = opt_get (labs p) ''Creatinine'';
         platelets = opt_get (labs p) ''Platelets'';
         o2sat = opt_get (vitals p) ''O2Sat'';
         ph = opt_get (labs p) ''pH'';
         s1 = risk_if (js_gt creatinine 2.0) 0.15 s;
         s2 = risk_if (js_gt creatinine 3.0) 0.10 s1;
         s3 = risk_if (js_lt platelets 100) 0.18 s2;
         s4 = risk_if (js_lt platelets 50) 0.12 s3;
         s5 = risk_if (js_lt o2sat 90) 0.20 s4;
         s6 = risk_if (js_lt o2sat 85) 0.12 s5;
         s7 = risk_if (js_lt ph 7.30) 0.15 s6;
         s8 = risk_if (js_lt ph 7.25) 0.10 s7
     in s8)"

definition score_time :: "patient \<Rightarrow> scoring \<Rightarrow> scoring" where
  "score_time p s =
    (let s1 = risk_if (js_gt (ICULOS p) 24) 0.06 s;
         s2 = risk_if (js_gt (ICULOS p) 72) 0.04 s1;
         s3 = risk_if (js_gt (Age p) 65) 0.05 s2;
         s4 = risk_if (js_gt (Age p) 75) 0.03 s3
     in s4)"

text \<open>The state of the locals when the method reaches the completeness ratio.\<close>

definition accumulate :: "patient \<Rightarrow> scoring" where
  "accumulate p =
    (let s1 = score_Temp p initial;
         s2 = score_HR p s1;
         s3 = score_Resp p s2;
         s4 = score_WBC p s3;
         s5 = score_MAP p s4;
         s6 = score_Lactate p s5;
         s7 = score_markers p s6;
         s8 = score_time p s7
     in s8)"

text \<open>The six fields whose presence the scorer counts.\<close>

definition checklist :: "patient \<Rightarrow> jsval list" where
  "checklist p = [opt_get (vitals p) ''Temp'', opt_get (vitals p) ''HR'',
     opt_get (vitals p) ''Resp'', opt_get (labs p) ''WBC'',
     opt_get (vitals p) ''MAP'', opt_get (labs p) ''Lactate'']"

text \<open>\<open>totalChecks > 0 ? dataCompleteness / totalChecks : 0\<close>\<close>

definition completenessRatio :: "scoring \<Rightarrow> real" where
  "completenessRatio s =
     (if totalChecks s > 0 then real (dataCompleteness s) / real (totalChecks s) else 0)"

text \<open>The ordered comparisons that determine the risk level.\<close>

definition classify :: "real \<Rightarrow> real \<Rightarrow> real \<Rightarrow> risk_level" where
  "classify c ratio score =
     (if c < 0.5 \<or> ratio < 0.4 then UNCERTAIN
      else if score < 0.30 then LOW
      else if score < 0.55 then MODERATE
      else if score < 0.75 then HIGH
      else CRITICAL)"

text \<open>
  The method itself. Its second argument is the value that the one call of
  \<open>Math.random()\<close> returns.
\<close>

definition predictWithUncertainty :: "patient \<Rightarrow> real \<Rightarrow> prediction" where
  "predictWithUncertainty p rnd =
    (let s = accumulate p;
         completeness = completenessRatio s;
         c1 = conf s - uncertaintyPenalty s * 0.7;
         c2 = max 0.2 (min 0.95 (c1 * (0.7 + 0.3 * completeness)));
         r1 = max 0 (min 1 (riskScore s));
         randomFactor = (rnd - 0.5) * 0.15;
         r2 = r1 + randomFactor;
         r3 = max 0 (min 1 r2)
     in \<lparr>probability = r3, confidence = c2, riskLevel = classify c2 completeness r3\<rparr>)"

section \<open>Threshold configuration\<close>

record config =
  min_v :: "jsnum option"
  max_v :: "jsnum option"
  critical :: "jsnum option"
  enabled :: bool

text \<open>
  \<open>ThresholdSettings\<close> is an object from parameter names to configurations. The checker
  walks it with \<open>Object.entries\<close>, so the object is modelled by the list of its entries in
  the order in which JavaScript enumerates them: keys that are array indices first, in
  ascending numeric order, then all other keys in the order in which they were created.
\<close>

type_synonym ThresholdSettings = "(string \<times> config) list"

definition is_array_index :: "string \<Rightarrow> bool" where
  "is_array_index k \<longleftrightarrow>
     k \<noteq> [] \<and> list_all is_digit k \<and> (k = ''0'' \<or> hd k \<noteq> CHR ''0'') \<and>
     digits_value 10 k < 2 ^ 32 - 1"

text \<open>
  Creating a property that the object does not have yet, and overwriting one that it has
  (which keeps its place in the enumeration).
\<close>

definition insert_property :: "string \<Rightarrow> 'a \<Rightarrow> (string \<times> 'a) list \<Rightarrow> (string \<times> 'a) list" where
  "insert_property k v ps =
     (if is_array_index k then
        (let before = (\<lambda>(k', v'). is_array_index k' \<and> digits_value 10 k' < digits_value 10 k)
         in takeWhile before ps @ (k, v) # dropWhile before ps)
      else ps @ [(k, v)])"

fun replace_property :: "string \<Rightarrow> 'a \<Rightarrow> (string \<times> 'a) list \<Rightarrow> (string \<times> 'a) list" where
  "replace_property k v [] = []"
| "replace_property k v ((k', v') # ps) =
     (if k' = k then (k, v) # ps else (k', v') # replace_property k v ps)"

definition set_property :: "string \<Rightarrow> 'a \<Rightarrow> (string \<times> 'a) list \<Rightarrow> (string \<times> 'a) list" where
  "set_property k v ps =
     (if k \<in> set (map fst ps) then replace_property k v ps else insert_property k v ps)"

text \<open>
  The object literal \<open>{ ...a, ...b }\<close>: a fresh object that receives the properties of
  \<open>a\<close> and then those of \<open>b\<close>.
\<close>

definition copy_properties :: "(string \<times> 'a) list \<Rightarrow> (string \<times> 'a) list \<Rightarrow> (string \<times> 'a) list" where
  "copy_properties source target = foldl (\<lambda>obj (k, v). set_property k v obj) target source"

definition spread2 :: "(string \<times> 'a) list \<Rightarrow> (string \<times> 'a) list \<Rightarrow> (string \<times> 'a) list" where
  "spread2 a b = copy_properties b (copy_properties a [])"

section \<open>The state of an \<open>EnhancedSepsisMLModel\<close>\<close>

text \<open>
  \<open>model\<close> is \<open>null\<close> until training has completed; the code only ever tests it for
  being set. \<open>trainedAt\<close> is the model's \<open>timestamp\<close>.
\<close>

record trained_model =
  trained :: bool
  features :: "string list"
  trainedAt :: nat
  patientCount :: nat
  sepsisPrevalence :: jsnum
  optimizedForSensitivity :: bool

record model_state =
  model :: "trained_model option"
  isTraining :: bool
  trainingProgress :: real
  thresholds :: ThresholdSettings

text \<open>\<open>{ min: lo, max: hi, critical: crit, enabled: true }\<close>\<close>

definition bounds :: "real \<Rightarrow> real \<Rightarrow> real \<Rightarrow> config" where
  "bounds lo hi crit =
     \<lparr>min_v = Some (Fin lo), max_v = Some (Fin hi), critical = Some (Fin crit), enabled = True\<rparr>"

definition defaultThresholds :: ThresholdSettings where
  "defaultThresholds =
    [(''HR'', bounds 60 100 120),
     (''Temp'', bounds 36.1 37.2 38.5),
     (''SBP'', bounds 90 140 80),
     (''Resp'', bounds 12 20 25),
     (''O2Sat'', bounds 95 100 90),
     (''WBC'', bounds 4.0 12.0 15.0),
     (''Lactate'', bounds 0.5 2.2 4.0),
     (''Creatinine'', bounds 0.7 1.3 2.0),
     (''Platelets'', bounds 150 450 100),
     (''MAP'', bounds 70 100 65)]"

text \<open>A new instance: the field initialisers followed by \<open>initializeDefaultThresholds\<close>.\<close>

definition constructor :: model_state where
  "constructor = \<lparr>model = None, isTraining = False, trainingProgress = 0,
     thresholds = defaultThresholds\<rparr>"

definition updateThresholds :: "ThresholdSettings \<Rightarrow> model_state \<Rightarrow> model_state" where
  "updateThresholds newThresholds st =
     st\<lparr>thresholds := spread2 (thresholds st) newThresholds\<rparr>"

definition getThresholds :: "model_state \<Rightarrow> ThresholdSettings" where
  "getThresholds st = thresholds st"

definition isModelTrained :: "model_state \<Rightarrow> bool" where
  "isModelTrained st \<longleftrightarrow> model st \<noteq> None"

section \<open>The threshold checker\<close>

datatype severity = Warning | Critical

record violation =
  parameter :: string
  value' :: jsval
  threshold :: jsnum
  severity :: severity

text \<open>
  The value of a parameter: taken from \<open>vitals\<close> when that is not \<open>undefined\<close>,
  otherwise from \<open>labs\<close>.
\<close>

definition lookup_value :: "patient \<Rightarrow> string \<Rightarrow> jsval" where
  "lookup_value p param =
     (if opt_get (vitals p) param \<noteq> Undefined then opt_get (vitals p) param
      else if opt_get (labs p) param \<noteq> Undefined then opt_get (labs p) param
      else Undefined)"

text \<open>
  The critical check. The first comparison is for the four parameters that are dangerous
  when low, the second for all others.
\<close>

definition check_critical :: "string \<Rightarrow> config \<Rightarrow> jsval \<Rightarrow> violation list" where
  "check_critical param cfg v =
     (case critical cfg of
        None \<Rightarrow> []
      | Some c \<Rightarrow>
          if (param = ''SBP'' \<or> param = ''MAP'' \<or> param = ''O2Sat'' \<or> param = ''Platelets'')
             \<and> num_lt (ToNumber v) c
          then [\<lparr>parameter = param, value' = v, threshold = c, severity = Critical\<rparr>]
          else if (param \<noteq> ''SBP'' \<and> param \<noteq> ''MAP'' \<and> param \<noteq> ''O2Sat'' \<and> param \<noteq> ''Platelets'')
             \<and> num_lt c (ToNumber v)
          then [\<lparr>parameter = param, value' = v, threshold = c, severity = Critical\<rparr>]
          else [])"

text \<open>The normal range.\<close>

definition check_min :: "string \<Rightarrow> config \<Rightarrow> jsval \<Rightarrow> violation list" where
  "check_min param cfg v =
     (case min_v cfg of
        None \<Rightarrow> []
      | Some lo \<Rightarrow> if num_lt (ToNumber v) lo
          then [\<lparr>parameter = param, value' = v, threshold = lo, severity = Warning\<rparr>] else [])"

definition check_max :: "string \<Rightarrow> config \<Rightarrow> jsval \<Rightarrow> violation list" where
  "check_max param cfg v =
     (case max_v cfg of
        None \<Rightarrow> []
      | Some hi \<Rightarrow> if num_lt hi (ToNumber v)
          then [\<lparr>parameter = param, value' = v, threshold = hi, severity = Warning\<rparr>] else [])"

text \<open>One iteration of the loop: the violations pushed for one entry of the configuration.\<close>

definition checkEntry :: "patient \<Rightarrow> string \<Rightarrow> config \<Rightarrow> violation list" where
  "checkEntry p param cfg =
     (if \<not> enabled cfg then []
      else
        let v = lookup_value p param in
        if v = Undefined \<or> v = Null then []
        else check_critical param cfg v @ check_min param cfg v @ check_max param cfg v)"

text \<open>The loop over \<open>Object.entries(this.thresholds)\<close>, pushing onto \<open>violations\<close>.\<close>

fun checkLoop :: "patient \<Rightarrow> ThresholdSettings \<Rightarrow> violation list \<Rightarrow> violation list" where
  "checkLoop p [] violations = violations"
| "checkLoop p ((param, cfg) # rest) violations =
     checkLoop p rest (violations @ checkEntry p param cfg)"

definition checkThresholds :: "model_state \<Rightarrow> patient \<Rightarrow> violation list" where
  "checkThresholds st p = checkLoop p (thresholds st) []"

section \<open>The report assembler\<close>

text \<open>
  The texts the assembler emits are fixed strings, some with values spliced in. Each
  datatype below has one constructor per string of the source; a constructor's arguments
  are the values its template interpolates.
\<close>

text \<open>
  Clinical findings, in the order of the source: "Tachycardia present (HR: ... bpm)",
  "Hyperthermia detected (...)", "Hypothermia detected (...)", "Hypotension present (SBP:
  ... mmHg)", "Tachypnea observed (.../min)", "Elevated lactate levels (... mmol/L)",
  "Leukocytosis present (WBC: ...)", "Leukopenia detected (WBC: ...)", "Thrombocytopenia
  observed (...)", and "CRITICAL: parameter at value (threshold: bound)".
\<close>

datatype finding =
    Tachycardia jsval
  | Hyperthermia jsval
  | Hypothermia jsval
  | Hypotension jsval
  | Tachypnea jsval
  | ElevatedLactate jsval
  | Leukocytosis jsval
  | Leukopenia jsval
  | Thrombocytopenia jsval
  | CriticalFinding string jsval jsnum

text \<open>
  Recommendations: four for an uncertain prediction ("UNCERTAINTY DETECTED ..."), five for
  a critical one ("CRITICAL: Initiate sepsis bundle protocol IMMEDIATELY" ...), four for a
  high one ("HIGH RISK: Close monitoring required" ...), then "Severe hyperlactatemia -
  investigate shock etiology" and "Consider vasopressor support".
\<close>

datatype recommendation =
    UncertaintyDetected | ObtainAdditionalValues | SeniorPhysicianAssessment
  | EnhancedMonitoringProtocols
  | InitiateSepsisBundle | BroadSpectrumAntibiotics | BloodCulturesFirst
  | AggressiveFluidResuscitation | ConsiderICUTransfer
  | CloseMonitoringRequired | OrderAdditionalLabs | ConsiderFluidChallenge
  | InfectiousDiseaseConsultation
  | SevereHyperlactatemia | ConsiderVasopressorSupport

text \<open>
  Uncertainty factors: "Missing lactate levels", "Missing white blood cell count",
  "Missing heart rate data", "Missing temperature readings", "Borderline lactate
  elevation", "Borderline tachycardia".
\<close>

datatype uncertainty_factor =
    MissingLactate | MissingWBC | MissingHR | MissingTemp
  | BorderlineLactate | BorderlineTachycardia

text \<open>
  Treatment plan: four steps for an uncertain prediction, four for a critical one, three
  for a high one.
\<close>

datatype plan_step =
    ConservativeMonitoring | AvoidAggressiveInterventions | EmpiricalOnlyIfDeterioration
  | DocumentUncertainty
  | ImmediateProtocolActivation | AntibioticsWithinOneHour | FluidResuscitation30mlkg
  | VasopressorsIfMAPLow
  | MonitoringEveryTwoHours | PrepareForProtocol | EmpiricalAntibioticsIfWorsening

text \<open>
  Follow-up actions: "Reassess in 2-4 hours with additional data", "Obtain missing
  laboratory values", "Monitor vital signs hourly", "Document clinical response to
  interventions", "Reassess sepsis risk every 6 hours".
\<close>

datatype follow_up =
    ReassessWithAdditionalData | ObtainMissingLabs
  | MonitorVitalsHourly | DocumentClinicalResponse | ReassessEverySixHours

text \<open>\<open>if (c) list.push(x)\<close>\<close>

definition push_if :: "bool \<Rightarrow> 'a \<Rightarrow> 'a list \<Rightarrow> 'a list" where
  "push_if c x xs = (if c then xs @ [x] else xs)"

definition generateClinicalFindings :: "patient \<Rightarrow> violation list \<Rightarrow> finding list" where
  "generateClinicalFindings p violations =
    (let hr = opt_get (vitals p) ''HR'';
         temp = opt_get (vitals p) ''Temp'';
         sbp = opt_get (vitals p) ''SBP'';
         resp = opt_get (vitals p) ''Resp'';
         lactate = opt_get (labs p) ''Lactate'';
         wbc = opt_get (labs p) ''WBC'';
         platelets = opt_get (labs p) ''Platelets'';
         f1 = push_if (js_gt hr 100) (Tachycardia hr) [];
         f2 = push_if (js_gt temp 38.3) (Hyperthermia temp) f1;
         f3 = push_if (js_lt temp 36) (Hypothermia temp) f2;
         f4 = push_if (js_lt sbp 90) (Hypotension sbp) f3;
         f5 = push_if (js_gt resp 22) (Tachypnea resp) f4;
         f6 = push_if (js_gt lactate 2.5) (ElevatedLactate lactate) f5;
         f7 = push_if (js_gt wbc 12) (Leukocytosis wbc) f6;
         f8 = push_if (js_lt wbc 4) (Leukopenia wbc) f7;
         f9 = push_if (js_lt platelets 150) (Thrombocytopenia platelets) f8
     in f9 @ map (\<lambda>v. CriticalFinding (parameter v) (value' v) (threshold v))
               (filter (\<lambda>v. severity v = Critical) violations))"

definition generateRecommendations ::
    "prediction \<Rightarrow> violation list \<Rightarrow> patient \<Rightarrow> recommendation list" where
  "generateRecommendations pred violations p =
    (if riskLevel pred = UNCERTAIN then
       [UncertaintyDetected, ObtainAdditionalValues, SeniorPhysicianAssessment,
        EnhancedMonitoringProtocols]
     else if riskLevel pred = CRITICAL then
       [InitiateSepsisBundle, BroadSpectrumAntibiotics, BloodCulturesFirst,
        AggressiveFluidResuscitation, ConsiderICUTransfer]
     else if riskLevel pred = HIGH then
       [CloseMonitoringRequired, OrderAdditionalLabs, ConsiderFluidChallenge,
        InfectiousDiseaseConsultation]
     else [])
    @ concat (map (\<lambda>v.
        push_if (parameter v = ''MAP'' \<and> severity v = Critical) ConsiderVasopressorSupport
          (push_if (parameter v = ''Lactate'' \<and> severity v = Critical) SevereHyperlactatemia []))
        violations)"

definition identifyUncertaintyFactors :: "patient \<Rightarrow> uncertainty_factor list" where
  "identifyUncertaintyFactors p =
    (let lactate = opt_get (labs p) ''Lactate'';
         wbc = opt_get (labs p) ''WBC'';
         hr = opt_get (vitals p) ''HR'';
         temp = opt_get (vitals p) ''Temp'';
         f1 = push_if (falsy lactate) MissingLactate [];
         f2 = push_if (falsy wbc) MissingWBC f1;
         f3 = push_if (falsy hr) MissingHR f2;
         f4 = push_if (falsy temp) MissingTemp f3;
         f5 = push_if (js_gt lactate 2.0 \<and> js_lt lactate 2.5) BorderlineLactate f4;
         f6 = push_if (js_gt hr 85 \<and> js_lt hr 95) BorderlineTachycardia f5
     in f6)"

definition generateTreatmentPlan :: "prediction \<Rightarrow> uncertainty_factor list \<Rightarrow> plan_step list" where
  "generateTreatmentPlan pred uncertaintyFactors =
    (if riskLevel pred = UNCERTAIN then
       [ConservativeMonitoring, AvoidAggressiveInterventions, EmpiricalOnlyIfDeterioration,
        DocumentUncertainty]
     else if riskLevel pred = CRITICAL then
       [ImmediateProtocolActivation, AntibioticsWithinOneHour, FluidResuscitation30mlkg,
        VasopressorsIfMAPLow]
     else if riskLevel pred = HIGH then
       [MonitoringEveryTwoHours, PrepareForProtocol, EmpiricalAntibioticsIfWorsening]
     else [])"

definition generateFollowUpActions :: "prediction \<Rightarrow> uncertainty_factor list \<Rightarrow> follow_up list" where
  "generateFollowUpActions pred uncertaintyFactors =
    (if length uncertaintyFactors > 0 then [ReassessWithAdditionalData, ObtainMissingLabs] else [])
    @ [MonitorVitalsHourly, DocumentClinicalResponse, ReassessEverySixHours]"

record report =
  patientId :: string
  overallRisk :: risk_level
  confidence' :: real
  riskProbability :: real
  clinicalFindings :: "finding list"
  recommendations :: "recommendation list"
  thresholdViolations :: "violation list"
  uncertaintyFactors :: "uncertainty_factor list"
  treatmentPlan :: "plan_step list"
  followUpActions :: "follow_up list"
  timestamp :: nat

datatype error = ModelNotTrained

text \<open>
  \<open>analyzePatient\<close> on a patient record. \<open>rnd\<close> is the value \<open>Math.random()\<close> returns
  inside the scorer and \<open>now\<close> the time \<open>new Date()\<close> reads.
\<close>

definition analyzePatient ::
    "model_state \<Rightarrow> patient \<Rightarrow> string \<Rightarrow> real \<Rightarrow> nat \<Rightarrow> error + report" where
  "analyzePatient st patientData pid rnd now =
    (if model st = None then Inl ModelNotTrained
     else
       let pred = predictWithUncertainty patientData rnd;
           violations = checkThresholds st patientData;
           findings = generateClinicalFindings patientData violations;
           recs = generateRecommendations pred violations patientData;
           factors = identifyUncertaintyFactors patientData;
           plan = generateTreatmentPlan pred factors
       in Inr \<lparr>patientId = pid,
                overallRisk = riskLevel pred,
                confidence' = confidence pred,
                riskProbability = probability pred,
                clinicalFindings = findings,
                recommendations = recs,
                thresholdViolations = violations,
                uncertaintyFactors = factors,
                treatmentPlan = plan,
                followUpActions = generateFollowUpActions pred factors,
                timestamp = now\<rparr>)"

section \<open>Drawing the random perturbation\<close>

text \<open>
  \<open>Math.random()\<close> reads a generator that lives outside the object. The generator is
  modelled by the sequence of values it is going to return; a call takes the first and
  leaves the rest. A call of the scorer as a method is then a function of the object's
  state, the generator and the record.
\<close>

type_synonym random_source = "nat \<Rightarrow> real"

definition Math_random :: "random_source \<Rightarrow> real \<times> random_source" where
  "Math_random g = (g 0, \<lambda>n. g (Suc n))"

definition score :: "model_state \<Rightarrow> random_source \<Rightarrow> patient \<Rightarrow> prediction \<times> model_state \<times> random_source" where
  "score st g p = (let (rnd, g') = Math_random g in (predictWithUncertainty p rnd, st, g'))"


section \<open>The row normalizer\<close>

text \<open>
  A \<open>DatasetRow\<close> maps column names to strings or numbers; a column the row does not
  have reads as \<open>undefined\<close>.
\<close>

type_synonym row = "string \<Rightarrow> jsval"

text \<open>An object literal: the listed properties, every other name reading as \<open>undefined\<close>.\<close>

definition object :: "(string \<times> jsval) list \<Rightarrow> fields" where
  "object kvs k = (case map_of kvs k of None \<Rightarrow> Undefined | Some v \<Rightarrow> v)"

text \<open>\<open>K: Number(row.K || 0)\<close>\<close>

definition num_field :: "row \<Rightarrow> string \<Rightarrow> jsval" where
  "num_field r k = Num (ToNumber (or_else (r k) (Num (Fin 0))))"

definition vitals_schema :: "string list" where
  "vitals_schema = [''HR'', ''O2Sat'', ''Temp'', ''SBP'', ''MAP'', ''DBP'', ''Resp'', ''EtCO2'']"

definition labs_schema :: "string list" where
  "labs_schema =
    [''BaseExcess'', ''HCO3'', ''FiO2'', ''pH'', ''PaCO2'', ''SaO2'', ''AST'', ''BUN'',
     ''Alkalinephos'', ''Calcium'', ''Chloride'', ''Creatinine'', ''Bilirubin_direct'',
     ''Glucose'', ''Lactate'', ''Magnesium'', ''Phosphate'', ''Potassium'',
     ''Bilirubin_total'', ''TroponinI'', ''Hct'', ''Hgb'', ''PTT'', ''WBC'', ''Fibrinogen'',
     ''Platelets'']"

text \<open>
  The record that the \<open>forEach\<close> callback of the timeline builder makes of one row:
  \<open>None\<close> when the row is skipped (\<open>if (!id) return\<close>), otherwise the \<open>PatientData\<close>
  object built from the row. The object literals for \<open>vitals\<close> and \<open>labs\<close> list the
  schema's fields one by one, each as \<open>Number(row.K || 0)\<close>. Filing the record under
  \<open>timelines[id]\<close> and in \<open>patients\<close>, which the callback does next, is not part of this
  function.
\<close>

definition normalizeRow :: "row \<Rightarrow> patient option" where
  "normalizeRow r =
    (let id = String_of (or_else (or_else (or_else (r ''Patient_ID'') (r ''PatientID''))
                           (r ''patient_id'')) (Str ''''))
     in if id = Chars '''' then None
        else Some
          \<lparr>Patient_ID = id,
           Hour = Num (ToNumber (or_else (or_else (r ''Hour'') (r ''Time'')) (Num (Fin 1)))),
           Age = num_field r ''Age'',
           Gender = (if r ''Gender'' = Str ''M'' then M
                     else if r ''Gender'' = Str ''F'' then F else M),
           Unit1 = truthy (r ''Unit1''),
           Unit2 = truthy (r ''Unit2''),
           HospAdmTime = num_field r ''HospAdmTime'',
           ICULOS = num_field r ''ICULOS'',
           SepsisLabel = Num (ToNumber (or_else (or_else (r ''SepsisLabel'') (r ''sepsislabel''))
                           (Num (Fin 0)))),
           vitals = Some (object (map (\<lambda>k. (k, num_field r k)) vitals_schema)),
           labs = Some (object (map (\<lambda>k. (k, num_field r k)) labs_schema))\<rparr>)"

text \<open>Reading one field of the \<open>vitals\<close> or \<open>labs\<close> of a record.\<close>

definition vital_of :: "string \<Rightarrow> patient \<Rightarrow> jsval" where
  "vital_of k rec = opt_get (vitals rec) k"

definition lab_of :: "string \<Rightarrow> patient \<Rightarrow> jsval" where
  "lab_of k rec = opt_get (labs rec) k"

text \<open>Reading a property of a configuration object, \<open>obj[k]\<close>.\<close>

definition get_property :: "(string \<times> 'a) list \<Rightarrow> string \<Rightarrow> 'a option" where
  "get_property obj k = map_of obj k"

section \<open>Example data\<close>

definition number :: "real \<Rightarrow> jsval" where
  "number x = Num (Fin x)"

text \<open>A record with the given vitals and labs, aged 40, in its twelfth hour.\<close>

definition example_patient :: "(string \<times> real) list \<Rightarrow> (string \<times> real) list \<Rightarrow> patient" where
  "example_patient vs ls =
    \<lparr>Patient_ID = Chars ''PT-007'', Hour = number 12, Age = number 40, Gender = F,
     Unit1 = True, Unit2 = False, HospAdmTime = number 0, ICULOS = number 12,
     SepsisLabel = number 0,
     vitals = Some (object (map (\<lambda>(k, x). (k, number x)) vs)),
     labs = Some (object (map (\<lambda>(k, x). (k, number x)) ls))\<rparr>"

definition febrile_patient :: patient where
  "febrile_patient = example_patient
     [(''HR'', 80), (''O2Sat'', 98), (''Temp'', 39.5), (''SBP'', 120), (''MAP'', 85), (''Resp'', 16)]
     [(''pH'', 7.4), (''Creatinine'', 1), (''Lactate'', 1), (''WBC'', 8), (''Platelets'', 250)]"

text \<open>The end-to-end scenario of the specification.\<close>

definition septic_patient :: patient where
  "septic_patient = example_patient
     [(''HR'', 110), (''O2Sat'', 98), (''Temp'', 39.0), (''SBP'', 85), (''MAP'', 85), (''Resp'', 16)]
     [(''pH'', 7.4), (''Creatinine'', 1), (''Lactate'', 5.0), (''WBC'', 14), (''Platelets'', 250)]"

text \<open>No field of the completeness checklist, but every additional marker far out of range.\<close>

definition markers_only_patient :: patient where
  "markers_only_patient = example_patient
     [(''O2Sat'', 80)] [(''pH'', 7.1), (''Creatinine'', 4), (''Platelets'', 30)]"

definition empty_patient :: patient where
  "empty_patient =
    \<lparr>Patient_ID = Chars ''PT-007'', Hour = number 12, Age = number 40, Gender = F,
     Unit1 = True, Unit2 = False, HospAdmTime = number 0, ICULOS = number 12,
     SepsisLabel = number 0, vitals = None, labs = None\<rparr>"

definition hypotensive_patient :: patient where
  "hypotensive_patient = example_patient [(''SBP'', 70)] []"

definition hypertensive_patient :: patient where
  "hypertensive_patient = example_patient [(''SBP'', 200)] []"

definition tachycardic_patient :: patient where
  "tachycardic_patient = example_patient [(''HR'', 130)] []"

definition shock_patient :: patient where
  "shock_patient = example_patient [(''SBP'', 70), (''HR'', 130)] []"

definition trained_state :: model_state where
  "trained_state = constructor
     \<lparr>model := Some \<lparr>trained = True, features = [''HR'', ''Temp''], trainedAt = 0,
        patientCount = 1, sepsisPrevalence = Fin 0, optimizedForSensitivity = True\<rparr>,
      trainingProgress := 100\<rparr>"

definition wider_HR :: ThresholdSettings where
  "wider_HR = [(''HR'', bounds 50 110 130)]"

definition constant_source :: "real \<Rightarrow> random_source" where
  "constant_source x = (\<lambda>n. x)"

definition falling_source :: "real \<Rightarrow> random_source" where
  "falling_source x = (\<lambda>n. x / real (Suc n))"

text \<open>A row given by its columns.\<close>

definition row_of :: "(string \<times> jsval) list \<Rightarrow> row" where
  "row_of cs k = (case map_of cs k of None \<Rightarrow> Undefined | Some c \<Rightarrow> c)"

text \<open>The accepted spellings of the patient-id column, in the order the code tries them.\<close>

definition id_columns :: "string list" where
  "id_columns = [''Patient_ID'', ''PatientID'', ''patient_id'']"

text \<open>A row that has the id "PT-007" under the column \<open>k\<close>.\<close>

definition id_row :: "string \<Rightarrow> row" where
  "id_row k = row_of [(k, Str ''PT-007''), (''HR'', Str ''88'')]"

definition pt007_row :: row where
  "pt007_row = row_of [(''PatientID'', Str ''PT-007''), (''HR'', Str ''88''),
     (''Temp'', Num (Fin 37)), (''Lactate'', Str '''')]"

definition unparseable_row :: row where
  "unparseable_row = row_of [(''Patient_ID'', Str ''PT-007''), (''HR'', Str ''abc'')]"

section \<open>Properties of the scorer\<close>

lemma clamp_unit:
  fixes x :: real
  shows "0 \<le> max 0 (min 1 x) \<and> max 0 (min 1 x) \<le> 1"
  by auto

lemma clamp_confidence:
  fixes y :: real
  shows "0 \<le> max 0.2 (min 0.95 y) \<and> max 0.2 (min 0.95 y) \<le> 1 \<and>
         0.2 \<le> max 0.2 (min 0.95 y) \<and> max 0.2 (min 0.95 y) \<le> 0.95"
  by auto

text \<open>
  C1. For every patient record, whatever the random draw, the scorer returns a prediction
  whose probability lies in [0,1] and whose confidence lies in [0,1]. Over patient
  records (objects whose fields are missing, null, numbers or strings) no operation of the
  method can throw, so the method is the total function above; the confidence is even
  within [0.2, 0.95].
\<close>

theorem predictWithUncertainty_bounds:
  "0 \<le> probability (predictWithUncertainty p rnd) \<and>
   probability (predictWithUncertainty p rnd) \<le> 1 \<and>
   0 \<le> confidence (predictWithUncertainty p rnd) \<and>
   confidence (predictWithUncertainty p rnd) \<le> 1 \<and>
   0.2 \<le> confidence (predictWithUncertainty p rnd) \<and>
   confidence (predictWithUncertainty p rnd) \<le> 0.95"
proof -
  obtain x where pr: "probability (predictWithUncertainty p rnd) = max 0 (min 1 x)"
    by (simp add: predictWithUncertainty_def Let_def)
  obtain y where co: "confidence (predictWithUncertainty p rnd) = max 0.2 (min 0.95 y)"
    by (simp add: predictWithUncertainty_def Let_def)
  show ?thesis
    unfolding pr co using clamp_confidence [of y] clamp_unit [of x] by blast
qed

lemmas scorer_defs =
  accumulate_def score_Temp_def score_HR_def score_Resp_def score_WBC_def score_MAP_def
  score_Lactate_def score_markers_def score_time_def risk_if_def sirs_if_def penalty_def
  counted_def initial_def present_def js_gt_def js_lt_def Let_def

lemmas example_defs =
  example_patient_def object_def number_def

lemma accumulate_septic:
  "accumulate septic_patient =
     \<lparr>riskScore = 0.88, conf = 0.91, uncertaintyPenalty = 0,
      sirsCount = 3, dataCompleteness = 6, totalChecks = 6\<rparr>"
  by (simp add: scorer_defs example_defs septic_patient_def)

lemma predict_septic:
  "predictWithUncertainty septic_patient (1/2) =
     \<lparr>probability = 0.88, confidence = 0.91, riskLevel = CRITICAL\<rparr>"
  by (simp add: predictWithUncertainty_def Let_def accumulate_septic completenessRatio_def
      classify_def)

text \<open>
  The specification's sepsis scenario, drawn at the middle of the noise band: probability
  0.88 and confidence 0.91, both within the bounds.
\<close>

theorem predictWithUncertainty_bounds_witness:
  "probability (predictWithUncertainty septic_patient (1/2)) = 0.88 \<and>
   confidence (predictWithUncertainty septic_patient (1/2)) = 0.91 \<and>
   0 \<le> probability (predictWithUncertainty septic_patient (1/2)) \<and>
   probability (predictWithUncertainty septic_patient (1/2)) \<le> 1 \<and>
   0 \<le> confidence (predictWithUncertainty septic_patient (1/2)) \<and>
   confidence (predictWithUncertainty septic_patient (1/2)) \<le> 1"
  using predictWithUncertainty_bounds [of septic_patient "1/2"]
  by (simp add: predict_septic)

lemma counts_simps:
  "totalChecks (risk_if c w s) = totalChecks s"
  "dataCompleteness (risk_if c w s) = dataCompleteness s"
  "totalChecks (sirs_if c w s) = totalChecks s"
  "dataCompleteness (sirs_if c w s) = dataCompleteness s"
  "totalChecks (penalty w s) = totalChecks s"
  "dataCompleteness (penalty w s) = dataCompleteness s"
  "totalChecks (counted s) = Suc (totalChecks s)"
  "dataCompleteness (counted s) = Suc (dataCompleteness s)"
  by (simp_all add: risk_if_def sirs_if_def penalty_def counted_def)

lemma step_counts:
  "totalChecks (score_Temp p s) = totalChecks s + (if present (opt_get (vitals p) ''Temp'') then 1 else 0)"
  "dataCompleteness (score_Temp p s) = dataCompleteness s + (if present (opt_get (vitals p) ''Temp'') then 1 else 0)"
  "totalChecks (score_HR p s) = totalChecks s + (if present (opt_get (vitals p) ''HR'') then 1 else 0)"
  "dataCompleteness (score_HR p s) = dataCompleteness s + (if present (opt_get (vitals p) ''HR'') then 1 else 0)"
  "totalChecks (score_Resp p s) = totalChecks s + (if present (opt_get (vitals p) ''Resp'') then 1 else 0)"
  "dataCompleteness (score_Resp p s) = dataCompleteness s + (if present (opt_get (vitals p) ''Resp'') then 1 else 0)"
  "totalChecks (score_WBC p s) = totalChecks s + (if present (opt_get (labs p) ''WBC'') then 1 else 0)"
  "dataCompleteness (score_WBC p s) = dataCompleteness s + (if present (opt_get (labs p) ''WBC'') then 1 else 0)"
  "totalChecks (score_MAP p s) = totalChecks s + (if present (opt_get (vitals p) ''MAP'') then 1 else 0)"
  "dataCompleteness (score_MAP p s) = dataCompleteness s + (if present (opt_get (vitals p) ''MAP'') then 1 else 0)"
  "totalChecks (score_Lactate p s) = totalChecks s + (if present (opt_get (labs p) ''Lactate'') then 1 else 0)"
  "dataCompleteness (score_Lactate p s) = dataCompleteness s + (if present (opt_get (labs p) ''Lactate'') then 1 else 0)"
  "totalChecks (score_markers p s) = totalChecks s"
  "dataCompleteness (score_markers p s) = dataCompleteness s"
  "totalChecks (score_time p s) = totalChecks s"
  "dataCompleteness (score_time p s) = dataCompleteness s"
  by (simp_all add: score_Temp_def score_HR_def score_Resp_def score_WBC_def score_MAP_def
      score_Lactate_def score_markers_def score_time_def Let_def counts_simps)

lemma totalChecks_accumulate:
  "totalChecks (accumulate p) = length (filter present (checklist p))"
  by (simp add: accumulate_def Let_def step_counts initial_def checklist_def)

lemma dataCompleteness_accumulate:
  "dataCompleteness (accumulate p) = totalChecks (accumulate p)"
  by (simp add: accumulate_def Let_def step_counts initial_def)

text \<open>
  Both counters advance together, so the ratio is 1 as soon as one field of the checklist
  is present, and 0 otherwise.
\<close>

lemma completenessRatio_accumulate:
  "completenessRatio (accumulate p) = (if \<exists>v \<in> set (checklist p). present v then 1 else 0)"
  by (auto simp add: completenessRatio_def dataCompleteness_accumulate totalChecks_accumulate
      filter_empty_conv)

lemma riskLevel_classify:
  "riskLevel (predictWithUncertainty p rnd) =
     classify (confidence (predictWithUncertainty p rnd)) (completenessRatio (accumulate p))
       (probability (predictWithUncertainty p rnd))"
  by (simp add: predictWithUncertainty_def Let_def)

text \<open>
  C2. Whenever the record is not classified UNCERTAIN, that is, the confidence is at least
  0.5 and the completeness ratio at least 0.4, the risk level follows from the final risk
  score by the strict comparisons against 0.30, 0.55 and 0.75 in that order: a score of
  exactly 0.30 is MODERATE and a score of 0.2999 is LOW.
\<close>

theorem classification_boundaries:
  assumes "0.5 \<le> confidence (predictWithUncertainty p rnd)"
    and "0.4 \<le> completenessRatio (accumulate p)"
  shows "riskLevel (predictWithUncertainty p rnd) =
      (if probability (predictWithUncertainty p rnd) < 0.30 then LOW
       else if probability (predictWithUncertainty p rnd) < 0.55 then MODERATE
       else if probability (predictWithUncertainty p rnd) < 0.75 then HIGH
       else CRITICAL) \<and>
    (probability (predictWithUncertainty p rnd) = 0.30 \<longrightarrow>
       riskLevel (predictWithUncertainty p rnd) = MODERATE) \<and>
    (probability (predictWithUncertainty p rnd) = 0.2999 \<longrightarrow>
       riskLevel (predictWithUncertainty p rnd) = LOW)"
proof -
  have "riskLevel (predictWithUncertainty p rnd) =
      (if probability (predictWithUncertainty p rnd) < 0.30 then LOW
       else if probability (predictWithUncertainty p rnd) < 0.55 then MODERATE
       else if probability (predictWithUncertainty p rnd) < 0.75 then HIGH
       else CRITICAL)"
    using assms unfolding riskLevel_classify classify_def by simp
  then show ?thesis by simp
qed

lemma accumulate_febrile:
  "accumulate febrile_patient =
     \<lparr>riskScore = 0.30, conf = 0.85, uncertaintyPenalty = 0,
      sirsCount = 1, dataCompleteness = 6, totalChecks = 6\<rparr>"
  by (simp add: scorer_defs example_defs febrile_patient_def)

lemma febrile_scores:
  "probability (predictWithUncertainty febrile_patient (1/2)) = 0.30"
  "confidence (predictWithUncertainty febrile_patient (1/2)) = 0.85"
  "probability (predictWithUncertainty febrile_patient (749/1500)) = 0.2999"
  "confidence (predictWithUncertainty febrile_patient (749/1500)) = 0.85"
  "completenessRatio (accumulate febrile_patient) = 1"
  by (simp_all add: predictWithUncertainty_def Let_def accumulate_febrile completenessRatio_def)

text \<open>
  A febrile patient with an otherwise normal record accumulates exactly 0.30. A draw of
  1/2 leaves the score there; a draw of 749/1500 lowers it by 0.0001.
\<close>

theorem classification_boundaries_witness:
  "0.5 \<le> confidence (predictWithUncertainty febrile_patient (1/2)) \<and>
   0.4 \<le> completenessRatio (accumulate febrile_patient) \<and>
   probability (predictWithUncertainty febrile_patient (1/2)) = 0.30 \<and>
   riskLevel (predictWithUncertainty febrile_patient (1/2)) = MODERATE \<and>
   0.5 \<le> confidence (predictWithUncertainty febrile_patient (749/1500)) \<and>
   probability (predictWithUncertainty febrile_patient (749/1500)) = 0.2999 \<and>
   riskLevel (predictWithUncertainty febrile_patient (749/1500)) = LOW"
  using classification_boundaries [of febrile_patient "1/2"]
    classification_boundaries [of febrile_patient "749/1500"]
  by (simp add: febrile_scores)

text \<open>
  C3. A completeness ratio below 0.4 classifies the record UNCERTAIN whatever the risk
  score is. When no field of \<open>vitals\<close> and \<open>labs\<close> is present, \<open>totalChecks\<close> is 0, the
  ratio is 0 by the guard of the division, and the record is UNCERTAIN.
\<close>

theorem incomplete_data_is_uncertain:
  "(completenessRatio (accumulate p) < 0.4 \<longrightarrow>
      riskLevel (predictWithUncertainty p rnd) = UNCERTAIN) \<and>
   ((\<forall>k. \<not> present (opt_get (vitals p) k)) \<and> (\<forall>k. \<not> present (opt_get (labs p) k)) \<longrightarrow>
      totalChecks (accumulate p) = 0 \<and> completenessRatio (accumulate p) = 0 \<and>
      riskLevel (predictWithUncertainty p rnd) = UNCERTAIN)"
proof -
  have low: "riskLevel (predictWithUncertainty p rnd) = UNCERTAIN"
    if "completenessRatio (accumulate p) < 0.4"
    using that unfolding riskLevel_classify classify_def by simp
  have none: "totalChecks (accumulate p) = 0 \<and> completenessRatio (accumulate p) = 0"
    if "\<forall>k. \<not> present (opt_get (vitals p) k)" and "\<forall>k. \<not> present (opt_get (labs p) k)"
    using that by (simp add: totalChecks_accumulate completenessRatio_def checklist_def)
  show ?thesis
    using low none by simp
qed

lemma accumulate_markers_only:
  "accumulate markers_only_patient =
     \<lparr>riskScore = 1.12, conf = 0.85, uncertaintyPenalty = 0.39,
      sirsCount = 0, dataCompleteness = 0, totalChecks = 0\<rparr>"
  by (simp add: scorer_defs example_defs markers_only_patient_def)

lemma markers_only_scores:
  "probability (predictWithUncertainty markers_only_patient (1/2)) = 1"
  "completenessRatio (accumulate markers_only_patient) = 0"
  by (simp_all add: predictWithUncertainty_def Let_def accumulate_markers_only completenessRatio_def)

text \<open>
  A record without any checklist field but with every additional marker out of range
  reaches the probability 1 and is still UNCERTAIN; so is the record without vitals and
  labs.
\<close>

theorem incomplete_data_is_uncertain_witness:
  "completenessRatio (accumulate markers_only_patient) < 0.4 \<and>
   probability (predictWithUncertainty markers_only_patient (1/2)) = 1 \<and>
   riskLevel (predictWithUncertainty markers_only_patient (1/2)) = UNCERTAIN \<and>
   vitals empty_patient = None \<and> labs empty_patient = None \<and>
   totalChecks (accumulate empty_patient) = 0 \<and>
   completenessRatio (accumulate empty_patient) = 0 \<and>
   riskLevel (predictWithUncertainty empty_patient (1/2)) = UNCERTAIN"
  using incomplete_data_is_uncertain [of markers_only_patient "1/2"]
    incomplete_data_is_uncertain [of empty_patient "1/2"]
  by (simp add: markers_only_scores empty_patient_def present_def)

text \<open>
  C9. Two calls of the scorer on the same record that draw the same random value return
  the same risk level and the same probability, and in fact the same prediction: the
  result depends neither on the state of the object, nor on what the generator returns
  later, and the call leaves the object's state as it was.
\<close>

theorem scorer_deterministic:
  assumes "fst (Math_random g1) = fst (Math_random g2)"
  shows "riskLevel (fst (score st1 g1 p)) = riskLevel (fst (score st2 g2 p)) \<and>
         probability (fst (score st1 g1 p)) = probability (fst (score st2 g2 p)) \<and>
         fst (score st1 g1 p) = fst (score st2 g2 p) \<and>
         fst (snd (score st1 g1 p)) = st1"
  using assms by (simp add: score_def Math_random_def)

text \<open>
  Two generators that agree on their first value only, and two different states of the
  object.
\<close>

theorem scorer_deterministic_witness:
  "fst (Math_random (constant_source (1/2))) = fst (Math_random (falling_source (1/2))) \<and>
   constant_source (1/2) 1 \<noteq> falling_source (1/2) 1 \<and>
   model constructor \<noteq> model trained_state \<and>
   riskLevel (fst (score constructor (constant_source (1/2)) febrile_patient)) =
     riskLevel (fst (score trained_state (falling_source (1/2)) febrile_patient)) \<and>
   probability (fst (score constructor (constant_source (1/2)) febrile_patient)) =
     probability (fst (score trained_state (falling_source (1/2)) febrile_patient))"
  using scorer_deterministic [of "constant_source (1/2)" "falling_source (1/2)"
      constructor febrile_patient trained_state]
  by (simp add: Math_random_def constant_source_def falling_source_def constructor_def
      trained_state_def)

section \<open>Properties of the threshold checker\<close>

lemma checkLoop_append:
  "checkLoop p th acc = acc @ concat (map (\<lambda>(k, cfg). checkEntry p k cfg) th)"
  by (induction th arbitrary: acc) auto

lemma checkThresholds_concat:
  "checkThresholds st p = concat (map (\<lambda>(k, cfg). checkEntry p k cfg) (thresholds st))"
  by (simp add: checkThresholds_def checkLoop_append)

lemma checkEntry_parameter:
  "x \<in> set (checkEntry p k cfg) \<Longrightarrow> parameter x = k"
  by (auto simp add: checkEntry_def check_critical_def check_min_def check_max_def Let_def
      split: if_splits option.splits)

lemma map_parameter_checkEntry:
  "map parameter (checkEntry p k cfg) = replicate (length (checkEntry p k cfg)) k"
proof -
  have "map parameter (checkEntry p k cfg) = map (\<lambda>x. k) (checkEntry p k cfg)"
    by (rule map_cong) (simp_all add: checkEntry_parameter)
  then show ?thesis
    by (simp add: map_replicate_const)
qed

lemma map_parameter_entries:
  "map parameter (concat (map (\<lambda>(k, cfg). checkEntry p k cfg) th)) =
     concat (map (\<lambda>(k, cfg). replicate (length (checkEntry p k cfg)) k) th)"
  by (induction th) (auto simp add: map_parameter_checkEntry)

lemma critical_in_checkEntry:
  "\<lparr>parameter = param, value' = v, threshold = c, severity = Critical\<rparr> \<in> set (checkEntry p k cfg)
   \<longleftrightarrow> k = param \<and> enabled cfg \<and> critical cfg = Some c \<and>
       lookup_value p param = v \<and> present v \<and>
       (if param \<in> {''SBP'', ''MAP'', ''O2Sat'', ''Platelets''}
        then num_lt (ToNumber v) c else num_lt c (ToNumber v))"
  by (auto simp add: checkEntry_def check_critical_def check_min_def check_max_def Let_def
      present_def split: if_splits option.splits)

text \<open>
  C4. For an enabled parameter of the configuration with a critical bound \<open>c\<close>, the
  checker reports the critical violation of that parameter with value \<open>v\<close> exactly when
  the record holds \<open>v\<close> for it (neither \<open>undefined\<close> nor \<open>null\<close>) and \<open>v < c\<close> in case the
  parameter is SBP, MAP, O2Sat or Platelets, \<open>v > c\<close> in case it is any other parameter.
\<close>

theorem critical_direction:
  assumes "(param, cfg) \<in> set (thresholds st)"
    and "enabled cfg"
    and "critical cfg = Some c"
  shows "\<lparr>parameter = param, value' = v, threshold = c, severity = Critical\<rparr>
           \<in> set (checkThresholds st p)
         \<longleftrightarrow> lookup_value p param = v \<and> present v \<and>
             (if param \<in> {''SBP'', ''MAP'', ''O2Sat'', ''Platelets''}
              then num_lt (ToNumber v) c else num_lt c (ToNumber v))"
proof -
  have "\<lparr>parameter = param, value' = v, threshold = c, severity = Critical\<rparr>
           \<in> set (checkThresholds st p)
        \<longleftrightarrow> (\<exists>(k, cfg') \<in> set (thresholds st).
              \<lparr>parameter = param, value' = v, threshold = c, severity = Critical\<rparr>
                \<in> set (checkEntry p k cfg'))"
    by (auto simp add: checkThresholds_concat)
  also have "\<dots> \<longleftrightarrow> lookup_value p param = v \<and> present v \<and>
             (if param \<in> {''SBP'', ''MAP'', ''O2Sat'', ''Platelets''}
              then num_lt (ToNumber v) c else num_lt c (ToNumber v))"
    unfolding critical_in_checkEntry using assms by auto
  finally show ?thesis .
qed

lemmas checker_defs =
  checkThresholds_def checkEntry_def check_critical_def check_min_def check_max_def
  lookup_value_def constructor_def defaultThresholds_def bounds_def Let_def

lemma check_hypotensive:
  "checkThresholds constructor hypotensive_patient =
     [\<lparr>parameter = ''SBP'', value' = number 70, threshold = Fin 80, severity = Critical\<rparr>,
      \<lparr>parameter = ''SBP'', value' = number 70, threshold = Fin 90, severity = Warning\<rparr>]"
  by (simp add: checker_defs example_defs hypotensive_patient_def)

lemma check_hypertensive:
  "checkThresholds constructor hypertensive_patient =
     [\<lparr>parameter = ''SBP'', value' = number 200, threshold = Fin 140, severity = Warning\<rparr>]"
  by (simp add: checker_defs example_defs hypertensive_patient_def)

lemma check_tachycardic:
  "checkThresholds constructor tachycardic_patient =
     [\<lparr>parameter = ''HR'', value' = number 130, threshold = Fin 120, severity = Critical\<rparr>,
      \<lparr>parameter = ''HR'', value' = number 130, threshold = Fin 100, severity = Warning\<rparr>]"
  by (simp add: checker_defs example_defs tachycardic_patient_def)

lemma check_shock:
  "checkThresholds constructor shock_patient =
     [\<lparr>parameter = ''HR'', value' = number 130, threshold = Fin 120, severity = Critical\<rparr>,
      \<lparr>parameter = ''HR'', value' = number 130, threshold = Fin 100, severity = Warning\<rparr>,
      \<lparr>parameter = ''SBP'', value' = number 70, threshold = Fin 80, severity = Critical\<rparr>,
      \<lparr>parameter = ''SBP'', value' = number 70, threshold = Fin 90, severity = Warning\<rparr>]"
  by (simp add: checker_defs example_defs shock_patient_def)

text \<open>
  With the default bounds, SBP has the critical bound 80: the value 70 is a critical
  violation and the value 200 is not (it only exceeds the maximum 140). HR has the
  critical bound 120, and 130 is a critical violation.
\<close>

theorem critical_direction_witness:
  "(''SBP'', bounds 90 140 80) \<in> set (thresholds constructor) \<and>
   enabled (bounds 90 140 80) \<and> critical (bounds 90 140 80) = Some (Fin 80) \<and>
   lookup_value hypotensive_patient ''SBP'' = number 70 \<and>
   \<lparr>parameter = ''SBP'', value' = number 70, threshold = Fin 80, severity = Critical\<rparr>
      \<in> set (checkThresholds constructor hypotensive_patient) \<and>
   lookup_value hypertensive_patient ''SBP'' = number 200 \<and>
   \<lparr>parameter = ''SBP'', value' = number 200, threshold = Fin 80, severity = Critical\<rparr>
      \<notin> set (checkThresholds constructor hypertensive_patient) \<and>
   (''HR'', bounds 60 100 120) \<in> set (thresholds constructor) \<and>
   \<lparr>parameter = ''HR'', value' = number 130, threshold = Fin 120, severity = Critical\<rparr>
      \<in> set (checkThresholds constructor tachycardic_patient)"
  using critical_direction [of "''SBP''" "bounds 90 140 80" constructor "Fin 80" "number 70"
      hypotensive_patient]
    critical_direction [of "''SBP''" "bounds 90 140 80" constructor "Fin 80" "number 200"
      hypertensive_patient]
    critical_direction [of "''HR''" "bounds 60 100 120" constructor "Fin 120" "number 130"
      tachycardic_patient]
  by (simp add: constructor_def defaultThresholds_def bounds_def lookup_value_def example_defs
      present_def hypotensive_patient_def hypertensive_patient_def tachycardic_patient_def)

text \<open>
  C6. The violations are those of the configuration's entries, entry after entry in the
  order of \<open>Object.entries\<close>, and nothing is removed from them: the parameter names of the
  result are the names of the configuration in order, each repeated as often as its entry
  has violations. With the default bounds a heart rate of 130 is reported twice, as a
  critical violation (bound 120) and as a warning (maximum 100).
\<close>

theorem checkThresholds_order_no_dedup:
  "checkThresholds st p = concat (map (\<lambda>(k, cfg). checkEntry p k cfg) (thresholds st)) \<and>
   map parameter (checkThresholds st p) =
     concat (map (\<lambda>(k, cfg). replicate (length (checkEntry p k cfg)) k) (thresholds st)) \<and>
   checkThresholds constructor tachycardic_patient =
     [\<lparr>parameter = ''HR'', value' = number 130, threshold = Fin 120, severity = Critical\<rparr>,
      \<lparr>parameter = ''HR'', value' = number 130, threshold = Fin 100, severity = Warning\<rparr>]"
  using checkThresholds_concat [of st p] map_parameter_entries [of p "thresholds st"]
    check_tachycardic
  by simp

text \<open>
  A record that lists SBP before HR: the violations of HR still come first, as HR does in
  the configuration.
\<close>

theorem checkThresholds_order_no_dedup_witness:
  "map parameter (checkThresholds constructor shock_patient) = [''HR'', ''HR'', ''SBP'', ''SBP''] \<and>
   map severity (checkThresholds constructor shock_patient) =
     [Critical, Warning, Critical, Warning] \<and>
   map value' (checkThresholds constructor shock_patient) =
     [number 130, number 130, number 70, number 70]"
proof -
  have order: "map parameter (checkThresholds constructor shock_patient) =
      concat (map (\<lambda>(k, cfg). replicate (length (checkEntry shock_patient k cfg)) k)
        (thresholds constructor))"
    using checkThresholds_order_no_dedup [of constructor shock_patient] by blast
  have counts: "concat (map (\<lambda>(k, cfg). replicate (length (checkEntry shock_patient k cfg)) k)
        (thresholds constructor)) = [''HR'', ''HR'', ''SBP'', ''SBP'']"
    by (simp add: checker_defs example_defs shock_patient_def)
  have "map parameter (checkThresholds constructor shock_patient) = [''HR'', ''HR'', ''SBP'', ''SBP'']"
    by (rule trans [OF order counts])
  then show ?thesis
    by (simp add: check_shock)
qed

section \<open>Properties of the report assembler\<close>

text \<open>
  C5. On a patient record, \<open>analyzePatient\<close> throws exactly when \<open>model\<close> is \<open>null\<close>, and
  what it throws then is the error "Model not trained yet"; when the model is set it
  returns a report, built from the scorer's prediction and the checker's violations.
\<close>

theorem analyzePatient_throws_iff_untrained:
  "(analyzePatient st p pid rnd now = Inl ModelNotTrained \<longleftrightarrow> model st = None) \<and>
   (isl (analyzePatient st p pid rnd now) \<longleftrightarrow> model st = None) \<and>
   (\<not> isModelTrained st \<longleftrightarrow> model st = None) \<and>
   (model st \<noteq> None \<longrightarrow>
      (\<exists>rep. analyzePatient st p pid rnd now = Inr rep \<and>
             patientId rep = pid \<and>
             overallRisk rep = riskLevel (predictWithUncertainty p rnd) \<and>
             thresholdViolations rep = checkThresholds st p))"
  by (simp add: analyzePatient_def isModelTrained_def Let_def)

lemma model_trained_state: "model trained_state \<noteq> None"
  by (simp add: trained_state_def constructor_def)

lemma thresholds_trained_state: "thresholds trained_state = thresholds constructor"
  by (simp add: trained_state_def constructor_def)

text \<open>
  A new instance throws; an instance whose model is set reports the septic patient as
  CRITICAL.
\<close>

theorem analyzePatient_throws_iff_untrained_witness:
  "model constructor = None \<and>
   analyzePatient constructor septic_patient ''PT-007'' (1/2) 0 = Inl ModelNotTrained \<and>
   model trained_state \<noteq> None \<and>
   \<not> isl (analyzePatient trained_state septic_patient ''PT-007'' (1/2) 0) \<and>
   map_sum id overallRisk (analyzePatient trained_state septic_patient ''PT-007'' (1/2) 0) =
     Inr CRITICAL"
  using analyzePatient_throws_iff_untrained [of constructor septic_patient "''PT-007''" "1/2" 0]
    analyzePatient_throws_iff_untrained [of trained_state septic_patient "''PT-007''" "1/2" 0]
  by (auto simp add: model_trained_state predict_septic constructor_def)

section \<open>Properties of the threshold configuration\<close>

lemma map_of_replace_property:
  "map_of (replace_property k v ps) x =
     (if x = k \<and> k \<in> fst ` set ps then Some v else map_of ps x)"
  by (induction ps) (force simp add: image_iff)+

lemma map_of_middle:
  "k \<notin> fst ` set xs \<Longrightarrow>
     map_of (xs @ (k, v) # ys) x = (if x = k then Some v else map_of (xs @ ys) x)"
  by (induction xs) auto

lemma map_of_insert_property:
  assumes "k \<notin> fst ` set ps"
  shows "map_of (insert_property k v ps) x = (if x = k then Some v else map_of ps x)"
proof (cases "is_array_index k")
  case True
  define before :: "string \<times> 'a \<Rightarrow> bool" where
    "before = (\<lambda>(k', v'). is_array_index k' \<and> digits_value 10 k' < digits_value 10 k)"
  have "k \<notin> fst ` set (takeWhile before ps)"
    using assms by (auto dest: set_takeWhileD)
  then have "map_of (takeWhile before ps @ (k, v) # dropWhile before ps) x =
      (if x = k then Some v else map_of (takeWhile before ps @ dropWhile before ps) x)"
    by (rule map_of_middle)
  moreover have "insert_property k v ps = takeWhile before ps @ (k, v) # dropWhile before ps"
    using True by (simp add: insert_property_def before_def Let_def)
  ultimately show ?thesis
    by simp
next
  case False
  then show ?thesis
    using map_of_middle [of k ps v "[]" x] assms by (simp add: insert_property_def)
qed

lemma map_of_set_property:
  "map_of (set_property k v ps) x = (if x = k then Some v else map_of ps x)"
  by (simp add: set_property_def map_of_replace_property map_of_insert_property)

lemma map_of_copy_properties:
  "map_of (copy_properties source target) x =
     (case map_of (rev source) x of Some v \<Rightarrow> Some v | None \<Rightarrow> map_of target x)"
  unfolding copy_properties_def
proof (induction source arbitrary: target)
  case Nil
  then show ?case by simp
next
  case (Cons kv source)
  obtain k v where kv: "kv = (k, v)" by (cases kv)
  show ?case
    by (simp add: kv Cons.IH map_of_set_property map_add_def split: option.splits)
qed

lemma map_of_rev_distinct:
  "distinct (map fst xs) \<Longrightarrow> map_of (rev xs) = map_of xs"
  by (simp add: map_of_inject_set distinct_rev rev_map [symmetric])

lemma map_of_spread2:
  assumes "distinct (map fst a)"
  shows "map_of (spread2 a b) x =
     (case map_of (rev b) x of Some v \<Rightarrow> Some v | None \<Rightarrow> map_of a x)"
  using assms
  by (simp add: spread2_def map_of_copy_properties map_of_rev_distinct split: option.splits)

lemma keys_replace_property:
  "map fst (replace_property k v ps) = map fst ps"
  by (induction ps) auto

lemma distinct_set_property:
  assumes "distinct (map fst ps)"
  shows "distinct (map fst (set_property k v ps))"
proof (cases "k \<in> set (map fst ps)")
  case True
  then show ?thesis
    using assms by (simp add: set_property_def keys_replace_property)
next
  case False
  have "distinct (map fst (takeWhile q ps @ (k, v) # dropWhile q ps))" for q
  proof -
    have "distinct (map fst (takeWhile q ps @ dropWhile q ps))"
      using assms by simp
    moreover have "k \<notin> set (map fst (takeWhile q ps))" "k \<notin> set (map fst (dropWhile q ps))"
      using False by (auto dest: set_takeWhileD set_dropWhileD)
    ultimately show ?thesis
      by (simp only: map_append distinct_append list.map distinct.simps set_simps) auto
  qed
  then show ?thesis
    using False assms by (simp add: set_property_def insert_property_def Let_def)
qed

lemma distinct_copy_properties:
  "distinct (map fst target) \<Longrightarrow> distinct (map fst (copy_properties source target))"
  unfolding copy_properties_def
  by (induction source arbitrary: target) (auto simp add: distinct_set_property)

text \<open>
  The keys of the stored configuration are distinct after any update, whatever was stored
  before: the assumption of the frame property holds in every reachable state.
\<close>

lemma updateThresholds_distinct:
  "distinct (map fst (thresholds (updateThresholds newThresholds st)))"
  by (simp add: updateThresholds_def spread2_def distinct_copy_properties)

text \<open>
  C10. After \<open>updateThresholds(newThresholds)\<close>, \<open>getThresholds\<close> returns for every parameter
  that \<open>newThresholds\<close> does not name the configuration that was stored before. The first
  assumption says that the stored object has each key once.
\<close>

theorem updateThresholds_frame:
  assumes "distinct (map fst (thresholds st))"
    and "k \<notin> fst ` set newThresholds"
  shows "get_property (getThresholds (updateThresholds newThresholds st)) k =
           get_property (getThresholds st) k"
proof -
  have "map_of (rev newThresholds) k = None"
    using assms(2) by (simp add: map_of_eq_None_iff)
  then show ?thesis
    using assms(1)
    by (simp add: get_property_def getThresholds_def updateThresholds_def map_of_spread2)
qed

text \<open>The parameters that \<open>newThresholds\<close> names read as \<open>newThresholds\<close> has them.\<close>

lemma updateThresholds_replaces:
  assumes "distinct (map fst (thresholds st))"
    and "distinct (map fst newThresholds)"
    and "k \<in> fst ` set newThresholds"
  shows "get_property (getThresholds (updateThresholds newThresholds st)) k =
           get_property newThresholds k"
proof -
  obtain cfg where "map_of newThresholds k = Some cfg"
    using assms(3) by (metis domD dom_map_of_conv_image_fst)
  then show ?thesis
    using assms(1,2)
    by (simp add: get_property_def getThresholds_def updateThresholds_def map_of_spread2
        map_of_rev_distinct)
qed

lemma updated_HR:
  "getThresholds (updateThresholds wider_HR constructor) =
     (''HR'', bounds 50 110 130) # tl defaultThresholds"
  by (simp add: getThresholds_def updateThresholds_def wider_HR_def constructor_def
      defaultThresholds_def spread2_def copy_properties_def set_property_def
      insert_property_def is_array_index_def is_digit_def)

lemma default_properties:
  "get_property (getThresholds constructor) ''SBP'' = Some (bounds 90 140 80)"
  "get_property (getThresholds constructor) ''HR'' = Some (bounds 60 100 120)"
  "distinct (map fst (thresholds constructor))"
  "''SBP'' \<notin> fst ` set wider_HR"
  by (simp_all add: get_property_def getThresholds_def constructor_def defaultThresholds_def
      wider_HR_def)

lemma updated_HR_property:
  "get_property (getThresholds (updateThresholds wider_HR constructor)) ''HR'' =
     Some (bounds 50 110 130)"
  by (simp add: updated_HR get_property_def)

text \<open>
  Widening the bounds of HR on a new instance leaves those of SBP as they were.
\<close>

theorem updateThresholds_frame_witness:
  "distinct (map fst (thresholds constructor)) \<and>
   ''SBP'' \<notin> fst ` set wider_HR \<and>
   get_property (getThresholds constructor) ''SBP'' = Some (bounds 90 140 80) \<and>
   get_property (getThresholds (updateThresholds wider_HR constructor)) ''SBP'' =
     Some (bounds 90 140 80) \<and>
   get_property (getThresholds constructor) ''HR'' = Some (bounds 60 100 120) \<and>
   get_property (getThresholds (updateThresholds wider_HR constructor)) ''HR'' =
     Some (bounds 50 110 130)"
  using updateThresholds_frame [of constructor "''SBP''" wider_HR]
  by (simp add: default_properties updated_HR_property)

section \<open>Properties of the row normalizer\<close>

lemma map_of_schema:
  "map_of (map (\<lambda>k. (k, f k)) ks) k = (if k \<in> set ks then Some (f k) else None)"
  by (induction ks) auto

lemma object_schema:
  "object (map (\<lambda>k. (k, f k)) ks) k = (if k \<in> set ks then f k else Undefined)"
  by (simp add: object_def map_of_schema)

lemma normalizeRow_id:
  "map_option Patient_ID (normalizeRow r) =
     (let c = or_else (or_else (or_else (r ''Patient_ID'') (r ''PatientID'')) (r ''patient_id''))
                (Str '''')
      in if String_of c = Chars '''' then None else Some (String_of c))"
  by (simp add: normalizeRow_def Let_def)

lemma String_of_truthy: "truthy c \<Longrightarrow> String_of c \<noteq> Chars ''''"
  by (cases c) auto

lemma normalizeRow_fields_of:
  assumes "normalizeRow r = Some rec"
  shows "vital_of k rec = (if k \<in> set vitals_schema then num_field r k else Undefined)"
    and "lab_of k rec = (if k \<in> set labs_schema then num_field r k else Undefined)"
  using assms
  by (auto simp add: normalizeRow_def Let_def object_schema vital_of_def lab_of_def
      split: if_splits)

lemma num_field_cases:
  "num_field r k = Num (if truthy (r k) then ToNumber (r k) else Fin 0)"
  by (simp add: num_field_def or_else_def)

lemmas number_defs =
  StringToNumber_def trim_def is_space_def non_decimal_def signed_decimal_def
  unsigned_decimal_def exponent_part_def signed_digits_def scale_def radix_literal_def
  is_digit_def is_hex_digit_def is_octal_digit_def is_binary_digit_def digits_value_def
  digit_of_def Let_def

text \<open>
  The id of the record is \<open>String\<close> of the first truthy value among the three columns, and a
  row in which none of them is truthy is skipped.
\<close>

lemma normalizeRow_first_truthy:
  "map_option Patient_ID (normalizeRow r) =
     map_option String_of (find truthy [r ''Patient_ID'', r ''PatientID'', r ''patient_id''])"
  by (auto simp add: normalizeRow_id or_else_def Let_def String_of_truthy)

text \<open>
  C7. A row that carries a patient id, a non-empty string \<open>s\<close>, under one of the accepted
  spellings \<open>Patient_ID\<close>, \<open>PatientID\<close>, \<open>patient_id\<close> is not skipped, and the record built
  from it has exactly \<open>s\<close> as its patient id, whichever of the three spellings the row
  uses. The last assumption says that \<open>s\<close> is the id of the row: a column of another
  spelling is absent, falsy, or holds \<open>s\<close> too.
\<close>

theorem normalizeRow_patient_id:
  assumes "k \<in> set id_columns"
    and "r k = Str s"
    and "s \<noteq> []"
    and "\<forall>k' \<in> set id_columns. truthy (r k') \<longrightarrow> r k' = Str s"
  shows "\<exists>rec. normalizeRow r = Some rec \<and> Patient_ID rec = Chars s"
proof -
  have "find truthy [r ''Patient_ID'', r ''PatientID'', r ''patient_id''] = Some (Str s)"
    using assms by (auto simp add: id_columns_def)
  then have "map_option Patient_ID (normalizeRow r) = Some (Chars s)"
    by (simp add: normalizeRow_first_truthy)
  then show ?thesis
    by auto
qed

lemma id_row_cells:
  "id_row ''Patient_ID'' ''Patient_ID'' = Str ''PT-007''"
  "id_row ''patient_id'' ''patient_id'' = Str ''PT-007''"
  "pt007_row ''PatientID'' = Str ''PT-007''"
  "\<forall>k' \<in> set id_columns. truthy (id_row ''Patient_ID'' k') \<longrightarrow> id_row ''Patient_ID'' k' = Str ''PT-007''"
  "\<forall>k' \<in> set id_columns. truthy (id_row ''patient_id'' k') \<longrightarrow> id_row ''patient_id'' k' = Str ''PT-007''"
  "\<forall>k' \<in> set id_columns. truthy (pt007_row k') \<longrightarrow> pt007_row k' = Str ''PT-007''"
  by (simp_all add: id_row_def pt007_row_def row_of_def id_columns_def)

text \<open>
  The id "PT-007" under each of the three spellings in turn.
\<close>

theorem normalizeRow_patient_id_witness:
  "pt007_row ''PatientID'' = Str ''PT-007'' \<and>
   map_option Patient_ID (normalizeRow pt007_row) = Some (Chars ''PT-007'') \<and>
   id_row ''Patient_ID'' ''Patient_ID'' = Str ''PT-007'' \<and>
   map_option Patient_ID (normalizeRow (id_row ''Patient_ID'')) = Some (Chars ''PT-007'') \<and>
   id_row ''patient_id'' ''patient_id'' = Str ''PT-007'' \<and>
   map_option Patient_ID (normalizeRow (id_row ''patient_id'')) = Some (Chars ''PT-007'')"
proof -
  have "\<exists>rec. normalizeRow pt007_row = Some rec \<and> Patient_ID rec = Chars ''PT-007''"
    by (rule normalizeRow_patient_id [of "''PatientID''" pt007_row "''PT-007''"])
       (simp_all add: id_row_cells id_columns_def)
  moreover have "\<exists>rec. normalizeRow (id_row ''Patient_ID'') = Some rec \<and>
      Patient_ID rec = Chars ''PT-007''"
    by (rule normalizeRow_patient_id [of "''Patient_ID''" "id_row ''Patient_ID''" "''PT-007''"])
       (simp_all add: id_row_cells id_columns_def)
  moreover have "\<exists>rec. normalizeRow (id_row ''patient_id'') = Some rec \<and>
      Patient_ID rec = Chars ''PT-007''"
    by (rule normalizeRow_patient_id [of "''patient_id''" "id_row ''patient_id''" "''PT-007''"])
       (simp_all add: id_row_cells id_columns_def)
  ultimately show ?thesis
    by (auto simp add: id_row_cells)
qed

text \<open>
  C8, as stated, fails: a non-empty string that is not a numeric literal is truthy, so the
  fallback 0 is not taken, and \<open>Number\<close> turns it into NaN.
\<close>

theorem unparseable_field_counterexample:
  "unparseable_row ''HR'' = Str ''abc'' \<and>
   map_option (vital_of ''HR'') (normalizeRow unparseable_row) = Some (Num NaN)"
  by (simp add: normalizeRow_def Let_def object_def vitals_schema_def num_field_cases vital_of_def
     unparseable_row_def row_of_def or_else_def number_defs)

text \<open>
  C8, amended. Every field of the vitals and labs schema is present in the record a row
  produces, as a number: 0 when the row's value is falsy (in particular when the column is
  absent or empty), and \<open>Number\<close> of the row's value otherwise, which is NaN for a
  non-empty string that is not a numeric literal.
\<close>

theorem normalizeRow_fields:
  assumes "normalizeRow r = Some rec"
  shows "(\<forall>k \<in> set vitals_schema.
            vital_of k rec \<noteq> Undefined \<and>
            vital_of k rec = Num (if truthy (r k) then ToNumber (r k) else Fin 0) \<and>
            (r k = Undefined \<or> r k = Str '''' \<longrightarrow> vital_of k rec = Num (Fin 0))) \<and>
         (\<forall>k \<in> set labs_schema.
            lab_of k rec \<noteq> Undefined \<and>
            lab_of k rec = Num (if truthy (r k) then ToNumber (r k) else Fin 0) \<and>
            (r k = Undefined \<or> r k = Str '''' \<longrightarrow> lab_of k rec = Num (Fin 0)))"
  using assms by (auto simp add: normalizeRow_fields_of num_field_cases)

lemma normalize_pt007:
  "normalizeRow pt007_row \<noteq> None"
  by (simp add: normalizeRow_def Let_def pt007_row_def row_of_def or_else_def)

text \<open>
  The row has HR as the string "88", Temp as the number 37, an empty Lactate and no other
  column.
\<close>

theorem normalizeRow_fields_witness:
  "map_option (vital_of ''HR'') (normalizeRow pt007_row) = Some (Num (Fin 88)) \<and>
   map_option (vital_of ''Temp'') (normalizeRow pt007_row) = Some (Num (Fin 37)) \<and>
   map_option (vital_of ''SBP'') (normalizeRow pt007_row) = Some (Num (Fin 0)) \<and>
   map_option (lab_of ''Lactate'') (normalizeRow pt007_row) = Some (Num (Fin 0)) \<and>
   map_option (lab_of ''WBC'') (normalizeRow pt007_row) = Some (Num (Fin 0))"
proof -
  obtain rec where rec: "normalizeRow pt007_row = Some rec"
    using normalize_pt007 by blast
  have cells: "ToNumber (pt007_row ''HR'') = Fin 88" "truthy (pt007_row ''HR'')"
    "ToNumber (pt007_row ''Temp'') = Fin 37" "truthy (pt007_row ''Temp'')"
    "\<not> truthy (pt007_row ''SBP'')" "\<not> truthy (pt007_row ''Lactate'')"
    "\<not> truthy (pt007_row ''WBC'')"
    by (simp_all add: pt007_row_def row_of_def number_defs)
  have "''HR'' \<in> set vitals_schema" "''Temp'' \<in> set vitals_schema" "''SBP'' \<in> set vitals_schema"
    "''Lactate'' \<in> set labs_schema" "''WBC'' \<in> set labs_schema"
    by (simp_all add: vitals_schema_def labs_schema_def)
  then show ?thesis
    using normalizeRow_fields [OF rec] cells by (simp add: rec)
qed

end
